theory Spec2Isabelle
  imports
    Complex_Main
    "HOL-Library.Char_ord"
    "HOL-Library.List_Lexorder"
    "HOL-Library.Option_ord"
    "HOL-Library.Product_Lexorder"
begin

section \<open>The expense tracker of \<^verbatim>\<open>main.py\<close>\<close>

text \<open>
  The program is a set of handlers over one SQLite table. The table is modelled as the
  list of its rows in insertion order, together with the counter that
  \<^verbatim>\<open>AUTOINCREMENT\<close> keeps in \<^verbatim>\<open>sqlite_sequence\<close>. Every handler takes the
  store and returns it, so that what a handler writes is visible in its result.

  Modelling decisions:
  \<^item> \<^verbatim>\<open>amount REAL\<close> is a binary float in the source; the model takes its exact
    value as a rational, and \<^verbatim>\<open>SUM\<close> adds exactly. NaN and the infinities are not
    in the model.
  \<^item> A Python \<^verbatim>\<open>str\<close> is a \<open>string\<close>; SQLite compares \<^verbatim>\<open>TEXT\<close> with the
    \<^verbatim>\<open>BINARY\<close> collation, which is the lexicographic order on the characters.
  \<^item> A failure of the storage layer (\<^verbatim>\<open>sqlite3.connect\<close>, \<^verbatim>\<open>execute\<close> or
    \<^verbatim>\<open>commit\<close> raising) is the parameter \<open>fault\<close>: \<open>Some msg\<close> makes the
    database call of this invocation raise an exception whose text is \<open>msg\<close>.
  \<^item> \<^verbatim>\<open>ctx\<close> only logs; it is left out.
  \<^item> Row ids are natural numbers; the 63-bit bound of SQLite's rowids is not in the model.
\<close>

subsection \<open>Data model\<close>

text \<open>One row of \<^verbatim>\<open>expenses\<close> (\<^verbatim>\<open>init_db\<close>, lines 40-47). \<^verbatim>\<open>subcategory\<close> and
  \<^verbatim>\<open>note\<close> are nullable.\<close>

record expense =
  row_id :: nat
  amount :: rat
  date :: string
  category :: string
  subcategory :: "string option"
  note_text :: "string option"

record db =
  rows :: "expense list"
  seq :: nat

text \<open>A Python call either returns its text or raises.\<close>

datatype py_error = DatabaseError string

type_synonym py_result = "py_error + string"

subsection \<open>Python and SQL primitives\<close>

text \<open>Truthiness of an optional string: \<^verbatim>\<open>None\<close> and \<^verbatim>\<open>""\<close> are falsy.\<close>

fun truthy :: "string option \<Rightarrow> bool" where
  "truthy None = False"
| "truthy (Some s) = (s \<noteq> [])"

text \<open>\<^verbatim>\<open>x or d\<close> for an optional string \<open>x\<close>.\<close>

fun py_or :: "string option \<Rightarrow> string \<Rightarrow> string" where
  "py_or None d = d"
| "py_or (Some s) d = (if s = [] then d else s)"

definition digit_char :: "nat \<Rightarrow> char" where
  "digit_char d = char_of (48 + d)"

text \<open>\<^verbatim>\<open>str(n)\<close> for a non-negative integer.\<close>

fun str_nat :: "nat \<Rightarrow> string" where
  "str_nat n = (if n < 10 then [digit_char n] else str_nat (n div 10) @ [digit_char (n mod 10)])"

text \<open>The format \<^verbatim>\<open>:<w\<close>: left-justify in a field of width \<open>w\<close>.\<close>

definition ljust :: "nat \<Rightarrow> string \<Rightarrow> string" where
  "ljust w s = s @ replicate (w - length s) (CHR '' '')"

text \<open>Rounding to an integer, ties to even: how \<^verbatim>\<open>.2f\<close> rounds the exact value.\<close>

definition round_half_even :: "rat \<Rightarrow> int" where
  "round_half_even q =
     (let f = \<lfloor>q\<rfloor>; d = q - of_int f
      in if d < 1 / 2 then f else if 1 / 2 < d then f + 1 else if even f then f else f + 1)"

text \<open>The format \<^verbatim>\<open>:.2f\<close>.\<close>

definition fmt_2f :: "rat \<Rightarrow> string" where
  "fmt_2f x =
     (let n = nat (round_half_even (\<bar>x\<bar> * 100))
      in (if x < 0 then ''-'' else '''') @ str_nat (n div 100) @ ''.''
           @ [digit_char (n mod 100 div 10), digit_char (n mod 10)])"

text \<open>\<^verbatim>\<open>str.upper\<close>, on the ASCII letters.\<close>

definition upper_char :: "char \<Rightarrow> char" where
  "upper_char c = (if CHR ''a'' \<le> c \<and> c \<le> CHR ''z'' then char_of (of_char c - (32::nat)) else c)"

definition upper :: "string \<Rightarrow> string" where
  "upper s = map upper_char s"

text \<open>\<^verbatim>\<open>"\n".join(output)\<close>.\<close>

fun join_lines :: "string list \<Rightarrow> string" where
  "join_lines [] = []"
| "join_lines [l] = l"
| "join_lines (l # ls) = l @ [CHR 0x0A] @ join_lines ls"

text \<open>\<^verbatim>\<open>LIMIT ?\<close> for a limit that was bound to the query: SQLite applies no bound
  when the limit is negative. Whether the limit can be bound is decided in
  \<open>execute_list_query\<close> below.\<close>

definition sql_limit :: "int \<Rightarrow> 'a list \<Rightarrow> 'a list" where
  "sql_limit limit xs = (if limit < 0 then xs else take (nat limit) xs)"

subsection \<open>The store\<close>

text \<open>\<^verbatim>\<open>init_db\<close> on a fresh file: the table exists and is empty, nothing was ever
  inserted. \<^verbatim>\<open>CREATE TABLE IF NOT EXISTS\<close> leaves an existing table as it is.\<close>

definition empty_db :: db where
  "empty_db = \<lparr>rows = [], seq = 0\<rparr>"

definition init_db :: "db option \<Rightarrow> db" where
  "init_db store = (case store of None \<Rightarrow> empty_db | Some d \<Rightarrow> d)"

text \<open>The rowid that \<^verbatim>\<open>INTEGER PRIMARY KEY AUTOINCREMENT\<close> assigns: one more than the
  largest rowid that the table holds or ever held.\<close>

definition next_id :: "db \<Rightarrow> nat" where
  "next_id d = Suc (max (seq d) (Max (set (0 # map row_id (rows d)))))"

text \<open>\<^verbatim>\<open>INSERT INTO expenses (amount, date, category, subcategory, note) VALUES (?, ?, ?, ?, ?)\<close>
  and \<^verbatim>\<open>cursor.lastrowid\<close> (lines 82-86).\<close>

definition insert_expense ::
  "db \<Rightarrow> rat \<Rightarrow> string \<Rightarrow> string \<Rightarrow> string option \<Rightarrow> string option \<Rightarrow> db \<times> nat" where
  "insert_expense d amt record_date cat sub nt =
     (let i = next_id d;
          r = \<lparr>row_id = i, amount = amt, date = record_date, category = cat,
               subcategory = sub, note_text = nt\<rparr>
      in (\<lparr>rows = rows d @ [r], seq = i\<rparr>, i))"

text \<open>The \<^verbatim>\<open>WHERE 1=1 AND ...\<close> clause that \<^verbatim>\<open>list_expenses\<close> (lines 119-130) and
  \<^verbatim>\<open>get_summary\<close> (lines 172-184) build: one condition for every truthy argument.\<close>

definition where_conds ::
  "string option \<Rightarrow> string option \<Rightarrow> string option \<Rightarrow> (expense \<Rightarrow> bool) list" where
  "where_conds cat start_date end_date =
     (if truthy cat then [\<lambda>r. category r = py_or cat []] else [])
     @ (if truthy start_date then [\<lambda>r. py_or start_date [] \<le> date r] else [])
     @ (if truthy end_date then [\<lambda>r. date r \<le> py_or end_date []] else [])"

definition select_where ::
  "string option \<Rightarrow> string option \<Rightarrow> string option \<Rightarrow> expense list \<Rightarrow> expense list" where
  "select_where cat start_date end_date rs =
     filter (\<lambda>r. list_all (\<lambda>c. c r) (where_conds cat start_date end_date)) rs"

text \<open>\<^verbatim>\<open>ORDER BY date DESC, id DESC\<close>.\<close>

definition order_by_date_id_desc :: "expense list \<Rightarrow> expense list" where
  "order_by_date_id_desc rs = rev (sort_key (\<lambda>r. (date r, row_id r)) rs)"

subsection \<open>\<^verbatim>\<open>add_expense\<close> (lines 54-95)\<close>

definition add_success_text :: "nat \<Rightarrow> string \<Rightarrow> string option \<Rightarrow> rat \<Rightarrow> string \<Rightarrow> string" where
  "add_success_text expense_id cat sub amt record_date =
     ''Successfully added expense ID '' @ str_nat expense_id @ '': '' @ cat
       @ '' ('' @ py_or sub ''N/A'' @ '') - $'' @ fmt_2f amt @ '' on '' @ record_date"

text \<open>\<open>today\<close> is \<^verbatim>\<open>datetime.now().strftime("%Y-%m-%d")\<close>.\<close>

definition add_expense ::
  "string option \<Rightarrow> string \<Rightarrow> db \<Rightarrow> rat \<Rightarrow> string \<Rightarrow> string option \<Rightarrow> string option
     \<Rightarrow> string option \<Rightarrow> py_result \<times> db" where
  "add_expense fault today d amt cat sub nt dt =
     (if amt \<le> 0 then (Inr ''Error: Amount must be a positive number.'', d)
      else
        let record_date = py_or dt today
        in case fault of
             Some e \<Rightarrow> (Inr (''Error: Failed to save expense to database: '' @ e), d)
           | None \<Rightarrow>
               (let (d', expense_id) = insert_expense d amt record_date cat sub nt
                in (Inr (add_success_text expense_id cat sub amt record_date), d')))"

subsection \<open>\<^verbatim>\<open>list_expenses\<close> (lines 99-153)\<close>

text \<open>The default of the parameter \<^verbatim>\<open>limit\<close>.\<close>

definition limit_default :: int where
  "limit_default = 20"

definition list_header :: string where
  "list_header = ljust 4 ''ID'' @ '' | '' @ ljust 10 ''Date'' @ '' | '' @ ljust 12 ''Category''
     @ '' | '' @ ljust 12 ''Subcategory'' @ '' | '' @ ljust 8 ''Amount'' @ '' | '' @ ''Note''"

definition format_row :: "expense \<Rightarrow> string" where
  "format_row r = ljust 4 (str_nat (row_id r)) @ '' | '' @ ljust 10 (date r) @ '' | ''
     @ ljust 12 (category r) @ '' | '' @ ljust 12 (py_or (subcategory r) ''N/A'') @ '' | $''
     @ ljust 7 (fmt_2f (amount r)) @ '' | '' @ py_or (note_text r) []"

text \<open>The rows that the query of lines 119-133 selects, for a limit that can be bound.\<close>

definition list_rows ::
  "db \<Rightarrow> string option \<Rightarrow> string option \<Rightarrow> string option \<Rightarrow> int \<Rightarrow> expense list" where
  "list_rows d cat start_date end_date limit =
     sql_limit limit (order_by_date_id_desc (select_where cat start_date end_date (rows d)))"

definition list_lines :: "expense list \<Rightarrow> string list" where
  "list_lines rs = list_header # replicate 80 (CHR ''-'') # map format_row rs"

text \<open>The integers that \<^verbatim>\<open>sqlite3\<close> binds to a parameter: the signed 64-bit range.\<close>

definition sqlite_int :: "int \<Rightarrow> bool" where
  "sqlite_int n \<longleftrightarrow> - (2 ^ 63) \<le> n \<and> n < 2 ^ 63"

text \<open>\<^verbatim>\<open>cursor.execute(query, params)\<close> and \<^verbatim>\<open>cursor.fetchall()\<close> (lines 135-136).
  \<^verbatim>\<open>limit\<close> is a Python integer of any size: binding one outside the 64-bit range
  raises \<^verbatim>\<open>OverflowError\<close> with the text on the left.\<close>

definition execute_list_query ::
  "db \<Rightarrow> string option \<Rightarrow> string option \<Rightarrow> string option \<Rightarrow> int \<Rightarrow> string + expense list"
  where
  "execute_list_query d cat start_date end_date limit =
     (if sqlite_int limit then Inr (list_rows d cat start_date end_date limit)
      else Inl ''Python int too large to convert to SQLite INTEGER'')"

definition list_expenses ::
  "string option \<Rightarrow> db \<Rightarrow> string option \<Rightarrow> string option \<Rightarrow> string option \<Rightarrow> int
     \<Rightarrow> py_result \<times> db" where
  "list_expenses fault d cat start_date end_date limit =
     (case fault of
        Some e \<Rightarrow> (Inr (''Error: '' @ e), d)
      | None \<Rightarrow>
          (case execute_list_query d cat start_date end_date limit of
             Inl e \<Rightarrow> (Inr (''Error: '' @ e), d)
           | Inr rs \<Rightarrow>
               if rs = [] then (Inr ''No expenses found matching the criteria.'', d)
               else (Inr (join_lines (list_lines rs)), d)))"

subsection \<open>\<^verbatim>\<open>get_summary\<close> (lines 157-222)\<close>

text \<open>One result row of the aggregate query: \<^verbatim>\<open>(cat, sub, amt, count)\<close>.\<close>

type_synonym group_row = "string \<times> string option \<times> rat \<times> nat"

text \<open>\<^verbatim>\<open>SELECT category, subcategory, SUM(amount), COUNT(*) ... GROUP BY category, subcategory\<close>:
  one result row for every distinct pair, rows with a \<^verbatim>\<open>NULL\<close> subcategory forming a
  group of their own. The groups come in the order of their keys.\<close>

definition group_by_category_subcategory :: "expense list \<Rightarrow> group_row list" where
  "group_by_category_subcategory rs =
     map (\<lambda>k. let members = filter (\<lambda>r. (category r, subcategory r) = k) rs
              in (fst k, snd k, sum_list (map amount members), length members))
         (sort (remdups (map (\<lambda>r. (category r, subcategory r)) rs)))"

text \<open>\<^verbatim>\<open>ORDER BY category, SUM(amount) DESC\<close>; SQL leaves the order of ties open, the model
  keeps them in the order of the group keys.\<close>

definition order_by_category_sum_desc :: "group_row list \<Rightarrow> group_row list" where
  "order_by_category_sum_desc gs = sort_key (\<lambda>(cat, sub, amt, count). (cat, - amt)) gs"

definition summary_rows :: "db \<Rightarrow> string option \<Rightarrow> string option \<Rightarrow> group_row list" where
  "summary_rows d start_date end_date =
     order_by_category_sum_desc
       (group_by_category_subcategory (select_where None start_date end_date (rows d)))"

text \<open>\<^verbatim>\<open>SELECT SUM(amount) FROM expenses WHERE ...\<close> followed by \<^verbatim>\<open>or 0\<close>.\<close>

definition total_sum :: "expense list \<Rightarrow> rat" where
  "total_sum rs = sum_list (map amount rs)"

definition category_heading :: "string \<Rightarrow> rat \<Rightarrow> nat \<Rightarrow> string" where
  "category_heading cat amt count =
     [CHR 0x0A] @ ''['' @ upper cat @ ''] - Total: $'' @ fmt_2f amt @ '' ('' @ str_nat count
       @ '' entries)''"

text \<open>The two characters after the indentation are U+2514 and U+2500, here in UTF-8.\<close>

definition subcategory_line :: "string \<Rightarrow> rat \<Rightarrow> string" where
  "subcategory_line sub amt =
     ''  '' @ [CHR 0xE2, CHR 0x94, CHR 0x94, CHR 0xE2, CHR 0x94, CHR 0x80] @ '' '' @ sub
       @ '': $'' @ fmt_2f amt"

text \<open>The loop of lines 210-218; \<open>current_cat\<close> is the loop's variable.\<close>

fun summary_loop :: "string option \<Rightarrow> group_row list \<Rightarrow> string list" where
  "summary_loop current_cat [] = []"
| "summary_loop current_cat ((cat, sub, amt, count) # rest) =
     (if Some cat \<noteq> current_cat then [category_heading cat amt count] else [])
     @ (if truthy sub then [subcategory_line (py_or sub []) amt] else [])
     @ summary_loop (if Some cat \<noteq> current_cat then Some cat else current_cat) rest"

definition summary_lines :: "db \<Rightarrow> string option \<Rightarrow> string option \<Rightarrow> string list" where
  "summary_lines d start_date end_date =
     [''Expense Summary Report ('' @ py_or start_date ''Beginning'' @ '' to ''
        @ py_or end_date ''Now'' @ '')'',
      ''TOTAL SPEND: $'' @ fmt_2f (total_sum (select_where None start_date end_date (rows d))),
      replicate 40 (CHR ''-'')]
     @ summary_loop None (summary_rows d start_date end_date)"

definition get_summary ::
  "string option \<Rightarrow> db \<Rightarrow> string option \<Rightarrow> string option \<Rightarrow> py_result \<times> db" where
  "get_summary fault d start_date end_date =
     (case fault of
        Some e \<Rightarrow> (Inr (''Error gathering summary: '' @ e), d)
      | None \<Rightarrow>
          (if summary_rows d start_date end_date = []
           then (Inr ''No data recorded for the selected period.'', d)
           else (Inr (join_lines (summary_lines d start_date end_date)), d)))"

subsection \<open>The resources (lines 225-254)\<close>

text \<open>\<open>config\<close> is what \<^verbatim>\<open>load_categories_config\<close> returns: the entries of the JSON
  object, or none when the file is absent.\<close>

definition category_block :: "string \<times> string list \<Rightarrow> string list" where
  "category_block e =
     ([CHR 0x0A] @ upper (fst e))
     # (if sort (snd e) \<noteq> []
        then map (\<lambda>sub. ''  '' @ [CHR 0xE2, CHR 0x94, CHR 0x94, CHR 0xE2, CHR 0x94, CHR 0x80]
                         @ '' '' @ sub) (sort (snd e))
        else [''  (No subcategories)''])"

definition get_categories_and_subcategories :: "(string \<times> string list) list \<Rightarrow> string" where
  "get_categories_and_subcategories config =
     (if config = [] then ''No categories configured.''
      else join_lines (''Full Expense Categories Hierarchy:'' # replicate 35 (CHR ''-'')
             # concat (map category_block (sort_key fst config))))"

text \<open>\<^verbatim>\<open>get_resource_summary\<close> has no \<^verbatim>\<open>try\<close>: what the database call raises leaves
  the function.\<close>

definition get_resource_summary :: "string option \<Rightarrow> string \<Rightarrow> db \<Rightarrow> py_result \<times> db" where
  "get_resource_summary fault db_path d =
     (case fault of
        Some e \<Rightarrow> (Inl (DatabaseError e), d)
      | None \<Rightarrow>
          (Inr (''Database: '' @ db_path @ [CHR 0x0A] @ ''Total lifetime spend tracked: $''
                  @ fmt_2f (total_sum (rows d))), d))"

subsection \<open>The exposed surface\<close>

text \<open>The tools and resources that the decorators register, as requests; \<open>environment\<close>
  is what a call finds outside its arguments.\<close>

datatype request =
    AddExpense rat string "string option" "string option" "string option"
  | ListExpenses "string option" "string option" "string option" int
  | GetSummary "string option" "string option"
  | ReadCategories
  | ReadSummary

record environment =
  fault :: "string option"
  today :: string
  db_path :: string
  config :: "(string \<times> string list) list"

fun handle :: "environment \<Rightarrow> db \<Rightarrow> request \<Rightarrow> py_result \<times> db" where
  "handle env d (AddExpense amt cat sub nt dt) =
     add_expense (fault env) (today env) d amt cat sub nt dt"
| "handle env d (ListExpenses cat start_date end_date limit) =
     list_expenses (fault env) d cat start_date end_date limit"
| "handle env d (GetSummary start_date end_date) = get_summary (fault env) d start_date end_date"
| "handle env d ReadCategories = (Inr (get_categories_and_subcategories (config env)), d)"
| "handle env d ReadSummary = get_resource_summary (fault env) (db_path env) d"

text \<open>A session: the calls in order, each in its environment, on the store the previous
  call left.\<close>

fun serve :: "db \<Rightarrow> (environment \<times> request) list \<Rightarrow> db" where
  "serve d [] = d"
| "serve d ((env, req) # calls) = serve (snd (handle env d req)) calls"

subsection \<open>Example stores\<close>

definition example_env :: environment where
  "example_env = \<lparr>fault = None, today = ''2024-03-01'',
     db_path = ''/tmp/expense_tracker/expenses.db'', config = []\<rparr>"

text \<open>Food/Grocery 10, Food/Restaurant 30 and Transport 5, added to a fresh store.\<close>

definition summary_example_db :: db where
  "summary_example_db = serve empty_db
     [(example_env, AddExpense 10 ''Food'' (Some ''Grocery'') None None),
      (example_env, AddExpense 30 ''Food'' (Some ''Restaurant'') None None),
      (example_env, AddExpense 5 ''Transport'' None None None)]"

text \<open>Three records dated 2024-01-01, 2024-01-15 and 2024-02-01.\<close>

definition dates_example_db :: db where
  "dates_example_db = serve empty_db
     [(example_env, AddExpense 1 ''Food'' None None (Some ''2024-01-01'')),
      (example_env, AddExpense 2 ''Food'' None None (Some ''2024-01-15'')),
      (example_env, AddExpense 3 ''Food'' None None (Some ''2024-02-01''))]"

text \<open>Twenty records, all dated 2024-01-02.\<close>

definition full_page_db :: db where
  "full_page_db = serve empty_db
     (replicate 20 (example_env, AddExpense 1 ''Food'' None None (Some ''2024-01-02'')))"

subsection \<open>The filters as the specification words them\<close>

text \<open>A record satisfies the filters when its category equals the given category, its
  date is not below the start date and not above the end date, each condition counting
  only when its filter is given; dates compare as strings.\<close>

definition satisfies_filters ::
  "string option \<Rightarrow> string option \<Rightarrow> string option \<Rightarrow> expense \<Rightarrow> bool" where
  "satisfies_filters cat start_date end_date r \<longleftrightarrow>
     (case cat of None \<Rightarrow> True | Some c \<Rightarrow> category r = c)
     \<and> (case start_date of None \<Rightarrow> True | Some s \<Rightarrow> s \<le> date r)
     \<and> (case end_date of None \<Rightarrow> True | Some e \<Rightarrow> date r \<le> e)"

text \<open>A filter counts as given when it is present and not the empty string.\<close>

definition given :: "string option \<Rightarrow> string option" where
  "given x = (case x of None \<Rightarrow> None | Some s \<Rightarrow> if s = [] then None else Some s)"

text \<open>The matching records: those that satisfy every given filter.\<close>

definition matching_records ::
  "string option \<Rightarrow> string option \<Rightarrow> string option \<Rightarrow> expense list \<Rightarrow> expense list" where
  "matching_records cat start_date end_date rs =
     filter (satisfies_filters (given cat) (given start_date) (given end_date)) rs"

text \<open>Date descending, then id descending.\<close>

definition latest_first :: "expense \<Rightarrow> expense \<Rightarrow> bool" where
  "latest_first a b \<longleftrightarrow> date b < date a \<or> (date b = date a \<and> row_id b \<le> row_id a)"

text \<open>The group of a (category, subcategory) pair among the records \<open>rs\<close>: the pair, the
  sum of the amounts and the number of records.\<close>

definition group_of :: "expense list \<Rightarrow> string \<times> string option \<Rightarrow> group_row" where
  "group_of rs k =
     (fst k, snd k,
      sum_list (map amount (filter (\<lambda>r. (category r, subcategory r) = k) rs)),
      length (filter (\<lambda>r. (category r, subcategory r) = k) rs))"

subsection \<open>Invariant of the identifiers\<close>

text \<open>The ids are 1, 2, ... in the order of insertion, and the counter is the last of them.\<close>

definition ids_dense :: "db \<Rightarrow> bool" where
  "ids_dense d \<longleftrightarrow> map row_id (rows d) = [1..<Suc (length (rows d))] \<and> seq d = length (rows d)"

section \<open>Properties\<close>

subsection \<open>Auxiliary facts\<close>

lemma where_conds_empty_string:
  "where_conds (Some []) sd ed = where_conds None sd ed"
  "where_conds cat (Some []) ed = where_conds cat None ed"
  "where_conds cat sd (Some []) = where_conds cat sd None"
  by (simp_all add: where_conds_def)

lemma list_rows_empty_string:
  "list_rows d (Some []) sd ed limit = list_rows d None sd ed limit"
  "list_rows d cat (Some []) ed limit = list_rows d cat None ed limit"
  "list_rows d cat sd (Some []) limit = list_rows d cat sd None limit"
  by (simp_all add: list_rows_def select_where_def where_conds_empty_string)

lemma execute_list_query_empty_string:
  "execute_list_query d (Some []) sd ed limit = execute_list_query d None sd ed limit"
  "execute_list_query d cat (Some []) ed limit = execute_list_query d cat None ed limit"
  "execute_list_query d cat sd (Some []) limit = execute_list_query d cat sd None limit"
  by (simp_all add: execute_list_query_def list_rows_empty_string)

lemma summary_rows_empty_string:
  "summary_rows d (Some []) ed = summary_rows d None ed"
  "summary_rows d sd (Some []) = summary_rows d sd None"
  by (simp_all add: summary_rows_def select_where_def where_conds_empty_string)

lemma snd_list_expenses: "snd (list_expenses flt d cat sd ed limit) = d"
  by (simp add: list_expenses_def split: option.split sum.split)

lemma snd_get_summary: "snd (get_summary flt d sd ed) = d"
  by (simp add: get_summary_def split: option.split)

lemma snd_get_resource_summary: "snd (get_resource_summary flt p d) = d"
  by (simp add: get_resource_summary_def split: option.split)

lemma snd_add_expense:
  "snd (add_expense flt td d amt cat sub nt dt) =
     (if 0 < amt \<and> flt = None
      then \<lparr>rows = rows d @ [\<lparr>row_id = next_id d, amount = amt, date = py_or dt td,
                                category = cat, subcategory = sub, note_text = nt\<rparr>],
            seq = next_id d\<rparr>
      else d)"
  by (simp add: add_expense_def insert_expense_def Let_def split: option.split)

lemma handle_rows_append: "\<exists>added. rows (snd (handle env d req)) = rows d @ added"
  by (cases req)
     (simp_all add: snd_list_expenses snd_get_summary snd_get_resource_summary snd_add_expense)

lemma serve_rows_append: "\<exists>added. rows (serve d calls) = rows d @ added"
proof (induction calls arbitrary: d)
  case Nil
  show ?case by simp
next
  case (Cons c calls)
  obtain env req where c: "c = (env, req)" by (cases c)
  obtain a where a: "rows (snd (handle env d req)) = rows d @ a"
    using handle_rows_append by blast
  obtain b where b: "rows (serve (snd (handle env d req)) calls) = rows (snd (handle env d req)) @ b"
    using Cons.IH by blast
  show ?case using a b c by simp
qed

lemma rows_dates_example_db:
  "rows dates_example_db =
     [\<lparr>row_id = 1, amount = 1, date = ''2024-01-01'', category = ''Food'',
        subcategory = None, note_text = None\<rparr>,
      \<lparr>row_id = 2, amount = 2, date = ''2024-01-15'', category = ''Food'',
        subcategory = None, note_text = None\<rparr>,
      \<lparr>row_id = 3, amount = 3, date = ''2024-02-01'', category = ''Food'',
        subcategory = None, note_text = None\<rparr>]"
  by (simp add: dates_example_db_def example_env_def empty_db_def snd_add_expense next_id_def)

lemma rows_summary_example_db:
  "rows summary_example_db =
     [\<lparr>row_id = 1, amount = 10, date = ''2024-03-01'', category = ''Food'',
        subcategory = Some ''Grocery'', note_text = None\<rparr>,
      \<lparr>row_id = 2, amount = 30, date = ''2024-03-01'', category = ''Food'',
        subcategory = Some ''Restaurant'', note_text = None\<rparr>,
      \<lparr>row_id = 3, amount = 5, date = ''2024-03-01'', category = ''Transport'',
        subcategory = None, note_text = None\<rparr>]"
  by (simp add: summary_example_db_def example_env_def empty_db_def snd_add_expense next_id_def)

lemma next_id_fresh: "r \<in> set (rows d) \<Longrightarrow> row_id r < next_id d"
proof -
  assume "r \<in> set (rows d)"
  then have "row_id r \<in> set (0 # map row_id (rows d))" by simp
  then have "row_id r \<le> Max (set (0 # map row_id (rows d)))" by (rule Max_ge[OF finite_set])
  then show ?thesis by (simp add: next_id_def)
qed

lemma next_id_above_seq: "seq d < next_id d"
  by (simp add: next_id_def)

lemma Max_ids_append:
  "Max (set (0 # map row_id (rs @ [r]))) = max (row_id r) (Max (set (0 # map row_id rs)))"
proof -
  have "set (0 # map row_id (rs @ [r])) = insert (row_id r) (set (0 # map row_id rs))"
    by auto
  then show ?thesis by (simp only: Max_insert [OF finite_set, of "0 # map row_id rs"]) simp
qed

lemma next_id_dense: "ids_dense d \<Longrightarrow> next_id d = Suc (length (rows d))"
proof -
  assume a: "ids_dense d"
  have "Max (set (0 # [1..<Suc n])) = n" for n :: nat
    by (rule Max_eqI) auto
  then show ?thesis using a by (simp add: next_id_def ids_dense_def)
qed

lemma next_id_after_insert:
  "next_id \<lparr>rows = rows d @ [r\<lparr>row_id := next_id d\<rparr>], seq = next_id d\<rparr> = Suc (next_id d)"
proof -
  define m where "m = Max (set (0 # map row_id (rows d)))"
  have n: "next_id d = Suc (max (seq d) m)"
    by (simp only: next_id_def m_def)
  have "next_id \<lparr>rows = rows d @ [r\<lparr>row_id := next_id d\<rparr>], seq = next_id d\<rparr>
          = Suc (max (next_id d) (max (next_id d) m))"
    unfolding next_id_def [of "\<lparr>rows = rows d @ [r\<lparr>row_id := next_id d\<rparr>], seq = next_id d\<rparr>"]
    by (simp only: db.simps Max_ids_append m_def) simp
  also have "max (next_id d) (max (next_id d) m) = next_id d"
    using n by simp
  finally show ?thesis .
qed

lemma ids_dense_add: "ids_dense d \<Longrightarrow> ids_dense (snd (add_expense flt td d amt cat sub nt dt))"
  by (simp add: snd_add_expense next_id_dense) (simp add: ids_dense_def)

lemma ids_dense_handle: "ids_dense d \<Longrightarrow> ids_dense (snd (handle env d req))"
  by (cases req)
     (simp_all add: snd_list_expenses snd_get_summary snd_get_resource_summary ids_dense_add)

lemma ids_dense_serve: "ids_dense d \<Longrightarrow> ids_dense (serve d calls)"
  by (induction calls arbitrary: d) (auto simp: ids_dense_handle)

lemma ids_dense_empty: "ids_dense empty_db"
  by (simp add: ids_dense_def empty_db_def)

lemma next_id_add_success: "0 < amt \<Longrightarrow> next_id (snd (add_expense None td d amt cat sub nt dt)) = Suc (next_id d)"
  using next_id_after_insert [of d "\<lparr>row_id = 0, amount = amt, date = py_or dt td, category = cat, subcategory = sub, note_text = nt\<rparr>"]
  by (simp add: snd_add_expense)

lemma next_id_add_mono: "next_id d \<le> next_id (snd (add_expense flt td d amt cat sub nt dt))"
  using next_id_after_insert [of d "\<lparr>row_id = 0, amount = amt, date = py_or dt td, category = cat, subcategory = sub, note_text = nt\<rparr>"]
  by (simp add: snd_add_expense)

lemma next_id_handle_mono: "next_id d \<le> next_id (snd (handle env d req))"
  by (cases req)
     (simp_all add: snd_list_expenses snd_get_summary snd_get_resource_summary next_id_add_mono)

lemma next_id_serve_mono: "next_id d \<le> next_id (serve d calls)"
proof (induction calls arbitrary: d)
  case Nil show ?case by simp
next
  case (Cons c calls)
  obtain env req where c: "c = (env, req)" by (cases c)
  have "next_id d \<le> next_id (snd (handle env d req))" by (rule next_id_handle_mono)
  also have "\<dots> \<le> next_id (serve (snd (handle env d req)) calls)" by (rule Cons.IH)
  finally show ?case using c by simp
qed

lemma fst_add_expense_ok: "0 < amt \<Longrightarrow> fst (add_expense None td d amt cat sub nt dt) = Inr (add_success_text (next_id d) cat sub amt (py_or dt td))"
  by (simp add: add_expense_def insert_expense_def Let_def)

lemma add_text4: "add_success_text 4 ''Food'' None 5 ''2024-03-01''
          = ''Successfully added expense ID 4: Food (N/A) - $5.00 on 2024-03-01''"
  by code_simp

lemma next_id_dates_example_db: "next_id dates_example_db = 4"
  by (simp add: dates_example_db_def example_env_def empty_db_def snd_add_expense next_id_def)

lemma order_sorted:
  "sorted_wrt (\<lambda>a b. date b < date a \<or> (date b = date a \<and> row_id b \<le> row_id a))
     (order_by_date_id_desc rs)"
proof -
  have "sorted (map (\<lambda>r. (date r, row_id r)) (sort_key (\<lambda>r. (date r, row_id r)) rs))"
    by (rule sorted_sort_key)
  then have "sorted_wrt (\<lambda>a b. (date a, row_id a) \<le> (date b, row_id b))
               (sort_key (\<lambda>r. (date r, row_id r)) rs)"
    by (simp add: sorted_map)
  then have "sorted_wrt (\<lambda>a b. (date b, row_id b) \<le> (date a, row_id a)) (order_by_date_id_desc rs)"
    by (simp add: order_by_date_id_desc_def sorted_wrt_rev)
  then show ?thesis
    by (rule sorted_wrt_mono_rel [rotated]) (auto simp: less_eq_prod_def)
qed

lemma sql_limit_prefix: "\<exists>rest. xs = sql_limit limit xs @ rest"
  by (simp add: sql_limit_def) (metis append_take_drop_id)

lemma sql_limit_sorted: "sorted_wrt P xs \<Longrightarrow> sorted_wrt P (sql_limit limit xs)"
  by (simp add: sql_limit_def sorted_wrt_take)

lemma sql_limit_length: "0 \<le> limit \<Longrightarrow> int (length (sql_limit limit xs)) \<le> limit"
  by (simp add: sql_limit_def)

lemma set_sql_limit: "set (sql_limit limit xs) \<subseteq> set xs"
  by (simp add: sql_limit_def set_take_subset)

lemma distinct_map_insort_key:
  "distinct (map f (insort_key k x xs)) \<longleftrightarrow> f x \<notin> f ` set xs \<and> distinct (map f xs)"
  by (induction xs) (auto simp: set_insort_key)

lemma distinct_map_sort_key: "distinct (map f (sort_key k xs)) = distinct (map f xs)"
  by (induction xs) (simp_all add: distinct_map_insort_key)

lemma distinct_ids_order:
  "distinct (map row_id rs) \<Longrightarrow> distinct (map row_id (order_by_date_id_desc rs))"
  unfolding order_by_date_id_desc_def
  by (metis distinct_rev rev_map distinct_map_sort_key)

lemma distinct_ids_list_rows:
  assumes "distinct (map row_id (rows d))"
  shows "distinct (map row_id (list_rows d cat sd ed limit))"
proof -
  have "distinct (map row_id (select_where cat sd ed (rows d)))"
    using assms by (simp add: select_where_def distinct_map_filter)
  then have "distinct (map row_id (order_by_date_id_desc (select_where cat sd ed (rows d))))"
    by (rule distinct_ids_order)
  then show ?thesis
    by (simp add: list_rows_def sql_limit_def take_map [symmetric])
qed

lemma sorted_wrt_distinct_strict:
  "sorted_wrt P xs \<Longrightarrow> distinct (map f xs) \<Longrightarrow> sorted_wrt (\<lambda>a b. P a b \<and> f a \<noteq> f b) xs"
  by (induction xs) auto

lemma list_rows_sorted:
  "sorted_wrt (\<lambda>a b. date b < date a \<or> (date b = date a \<and> row_id b \<le> row_id a))
     (list_rows d cat sd ed limit)"
  by (simp add: list_rows_def sql_limit_sorted order_sorted)

lemma list_rows_sorted_strict:
  assumes "distinct (map row_id (rows d))"
  shows "sorted_wrt (\<lambda>a b. date b < date a \<or> (date b = date a \<and> row_id b < row_id a))
     (list_rows d cat sd ed limit)"
proof -
  have "sorted_wrt (\<lambda>a b. (date b < date a \<or> (date b = date a \<and> row_id b \<le> row_id a))
                          \<and> row_id a \<noteq> row_id b) (list_rows d cat sd ed limit)"
    using list_rows_sorted distinct_ids_list_rows [OF assms]
    by (rule sorted_wrt_distinct_strict)
  then show ?thesis
    by (rule sorted_wrt_mono_rel [rotated]) auto
qed

lemma rows_full_page_db:
  "rows full_page_db = map (\<lambda>i. \<lparr>row_id = i, amount = 1, date = ''2024-01-02'', category = ''Food'',
        subcategory = None, note_text = None\<rparr>) [1..<21]"
  by (simp add: full_page_db_def example_env_def empty_db_def snd_add_expense next_id_def
        eval_nat_numeral upt_rec)

lemma next_id_full_page_db: "next_id full_page_db = 21"
  by (simp add: full_page_db_def example_env_def empty_db_def snd_add_expense next_id_def
        eval_nat_numeral)

lemma sort_key_desc_nth_mono:
  assumes "i \<le> j" "j < length xs"
  shows "k (rev (sort_key k xs) ! j) \<le> k (rev (sort_key k xs) ! i)"
proof -
  have "sorted (map k (sort_key k xs))" by (rule sorted_sort_key)
  then have "sorted_wrt (\<lambda>a b. k b \<le> k a) (rev (sort_key k xs))"
    by (simp add: sorted_map sorted_wrt_rev)
  then show ?thesis
    using assms by (cases "i = j") (simp_all add: sorted_wrt_iff_nth_less)
qed

lemma length_filter_desc:
  "length (filter Q (rev (sort_key k xs))) = length (filter Q xs)"
proof -
  have "filter Q (rev (sort_key k xs)) = rev (sort_key k (filter Q xs))"
    by (simp add: rev_filter [symmetric] filter_sort)
  then show ?thesis by simp
qed

lemma in_take_desc:
  assumes x: "x \<in> set xs"
      and n: "length (filter (\<lambda>y. k x \<le> k y) xs) \<le> n"
  shows "x \<in> set (take n (rev (sort_key k xs)))"
proof -
  define ys where "ys = rev (sort_key k xs)"
  have "x \<in> set ys" using x by (simp add: ys_def)
  then obtain i where i: "i < length ys" "ys ! i = x"
    by (auto simp: in_set_conv_nth)
  have all: "\<forall>y \<in> set (take (Suc i) ys). k x \<le> k y"
  proof
    fix y assume "y \<in> set (take (Suc i) ys)"
    then obtain j where j: "j < Suc i" "j < length ys" "ys ! j = y"
      by (auto simp: in_set_conv_nth)
    have "k (ys ! i) \<le> k (ys ! j)"
      unfolding ys_def using j(1) i(1) by (intro sort_key_desc_nth_mono) (simp_all add: ys_def)
    then show "k x \<le> k y" using i j by simp
  qed
  have "Suc i = length (filter (\<lambda>y. k x \<le> k y) (take (Suc i) ys))"
    using all i(1) by (simp add: filter_True [of "take (Suc i) ys"] min_def)
  also have "\<dots> \<le> length (filter (\<lambda>y. k x \<le> k y) (take (Suc i) ys @ drop (Suc i) ys))"
    by (simp only: filter_append length_append)
  also have "\<dots> = length (filter (\<lambda>y. k x \<le> k y) xs)"
    by (simp add: ys_def length_filter_desc)
  finally have "i < n" using n by simp
  then show ?thesis
    using i unfolding ys_def [symmetric] by (auto simp: in_set_conv_nth)
qed


lemma select_where_no_filter: "select_where None None None rs = rs"
  by (simp add: select_where_def where_conds_def)

lemma added_row_listed:
  assumes few: "length (filter (\<lambda>r. dt < date r) (rows d)) < 20"
  shows "\<lparr>row_id = next_id d, amount = amt, date = dt, category = cat, subcategory = sub,
           note_text = nt\<rparr>
         \<in> set (list_rows
               \<lparr>rows = rows d @ [\<lparr>row_id = next_id d, amount = amt, date = dt, category = cat,
                                   subcategory = sub, note_text = nt\<rparr>], seq = next_id d\<rparr>
               None None None limit_default)"
proof -
  define x where "x = \<lparr>row_id = next_id d, amount = amt, date = dt, category = cat,
                        subcategory = sub, note_text = nt\<rparr>"
  define k where "k = (\<lambda>r::expense. (date r, row_id r))"
  have "filter (\<lambda>y. k x \<le> k y) (rows d) = filter (\<lambda>r. dt < date r) (rows d)"
  proof (rule filter_cong [OF refl])
    fix y assume "y \<in> set (rows d)"
    then have "row_id y < next_id d" by (rule next_id_fresh)
    then show "(k x \<le> k y) = (dt < date y)"
      by (auto simp: k_def x_def less_eq_prod_def)
  qed
  then have "length (filter (\<lambda>y. k x \<le> k y) (rows d @ [x])) \<le> 20"
    using few by simp
  then have "x \<in> set (take 20 (rev (sort_key k (rows d @ [x]))))"
    by (intro in_take_desc) simp_all
  then show ?thesis
    by (simp add: list_rows_def select_where_no_filter order_by_date_id_desc_def sql_limit_def
          limit_default_def x_def k_def)
qed

lemma format_row_example:
  "format_row \<lparr>row_id = 4, amount = 25 / 2, date = ''2024-03-01'', category = ''Food'',
      subcategory = None, note_text = Some ''lunch''\<rparr>
   = ''4    | 2024-03-01 | Food         | N/A          | $12.50   | lunch''"
  by code_simp

lemma select_where_given:
  "select_where cat sd ed rs = filter (satisfies_filters (given cat) (given sd) (given ed)) rs"
  by (cases cat; cases sd; cases ed)
     (auto simp: select_where_def where_conds_def satisfies_filters_def given_def
           intro!: filter_cong)

lemma count_list_insort_key:
  "count_list (insort_key k x xs) r = count_list (x # xs) r"
  by (induction xs) auto

lemma count_list_sort_key: "count_list (sort_key k xs) r = count_list xs r"
  by (induction xs) (simp_all add: count_list_insort_key)

lemma count_list_order: "count_list (order_by_date_id_desc rs) r = count_list rs r"
  by (simp add: order_by_date_id_desc_def count_list_sort_key)

lemma order_latest_first: "sorted_wrt latest_first (order_by_date_id_desc rs)"
  using order_sorted [of rs] by (simp add: latest_first_def [abs_def])

lemma fst_list_expenses_ok:
  "sqlite_int limit \<Longrightarrow>
   fst (list_expenses None d cat sd ed limit)
     = (if list_rows d cat sd ed limit = [] then Inr ''No expenses found matching the criteria.''
        else Inr (join_lines (list_lines (list_rows d cat sd ed limit))))"
  by (simp add: list_expenses_def execute_list_query_def)

lemma fst_list_expenses_overflow:
  "\<not> sqlite_int limit \<Longrightarrow>
   fst (list_expenses None d cat sd ed limit)
     = Inr ''Error: Python int too large to convert to SQLite INTEGER''"
  by (simp add: list_expenses_def execute_list_query_def)


lemma select_where_matching: "select_where cat sd ed rs = matching_records cat sd ed rs"
  by (simp add: matching_records_def select_where_given)

lemma group_by_group_of:
  "group_by_category_subcategory rs
     = map (group_of rs) (sort (remdups (map (\<lambda>r. (category r, subcategory r)) rs)))"
  by (simp add: group_by_category_subcategory_def group_of_def [abs_def] Let_def)

lemma set_summary_rows:
  "set (summary_rows d sd ed)
     = group_of (matching_records None sd ed (rows d))
         ` set (map (\<lambda>r. (category r, subcategory r)) (matching_records None sd ed (rows d)))"
  by (simp add: summary_rows_def order_by_category_sum_desc_def group_by_group_of
        select_where_matching)

lemma summary_rows_empty_iff:
  "summary_rows d sd ed = [] \<longleftrightarrow> matching_records None sd ed (rows d) = []"
proof -
  have "summary_rows d sd ed = [] \<longleftrightarrow> set (summary_rows d sd ed) = {}" by simp
  also have "\<dots> \<longleftrightarrow> matching_records None sd ed (rows d) = []"
    unfolding set_summary_rows by simp
  finally show ?thesis .
qed

lemma distinct_summary_keys:
  "distinct (map (\<lambda>g. (fst g, fst (snd g))) (summary_rows d sd ed))"
proof -
  define ks where "ks = sort (remdups (map (\<lambda>r. (category r, subcategory r))
                                   (select_where None sd ed (rows d))))"
  have "map (\<lambda>g. (fst g, fst (snd g))) (map (group_of (select_where None sd ed (rows d))) ks) = ks"
    by (simp add: group_of_def comp_def)
  moreover have "distinct ks" by (simp add: ks_def)
  ultimately show ?thesis
    by (simp add: summary_rows_def order_by_category_sum_desc_def group_by_group_of
          distinct_map_sort_key ks_def)
qed

lemma fst_get_summary_ok:
  "fst (get_summary None d sd ed)
     = (if matching_records None sd ed (rows d) = []
        then Inr ''No data recorded for the selected period.''
        else Inr (join_lines
               ([''Expense Summary Report ('' @ py_or sd ''Beginning'' @ '' to ''
                   @ py_or ed ''Now'' @ '')'',
                 ''TOTAL SPEND: $''
                   @ fmt_2f (sum_list (map amount (matching_records None sd ed (rows d)))),
                 replicate 40 (CHR ''-'')]
                @ summary_loop None (summary_rows d sd ed))))"
  by (simp add: get_summary_def summary_rows_empty_iff summary_lines_def total_sum_def
        select_where_matching)


lemma distinct_ids_all:
  "distinct (map row_id (rows d)) \<Longrightarrow>
   distinct (map row_id (order_by_date_id_desc (select_where cat sd ed (rows d))))"
  by (simp add: select_where_def distinct_map_filter distinct_ids_order)

lemmas eval_list = list_rows_def select_where_def where_conds_def order_by_date_id_desc_def
  sql_limit_def limit_default_def

lemma in_matching_records:
  "r \<in> set (matching_records cat sd ed rs) \<longleftrightarrow>
     r \<in> set rs
     \<and> (\<forall>c. cat = Some c \<and> c \<noteq> [] \<longrightarrow> category r = c)
     \<and> (\<forall>s. sd = Some s \<and> s \<noteq> [] \<longrightarrow> s \<le> date r)
     \<and> (\<forall>e. ed = Some e \<and> e \<noteq> [] \<longrightarrow> date r \<le> e)"
  by (cases cat; cases sd; cases ed)
     (auto simp: matching_records_def satisfies_filters_def given_def)

subsection \<open>Storage failures\<close>

text \<open>
  C2. A storage failure is to be caught in every operation and returned as text. The three
  tools do so. \<^verbatim>\<open>get_resource_summary\<close> does not: with a failing store it raises, where
  the claim promises an error text.
\<close>

theorem get_resource_summary_propagates_fault:
  "fst (get_resource_summary (Some e) p d) = Inl (DatabaseError e)
   \<and> fst (add_expense (Some e) td d amt acat sub nt dt)
       = Inr (if amt \<le> 0 then ''Error: Amount must be a positive number.''
              else ''Error: Failed to save expense to database: '' @ e)
   \<and> fst (list_expenses (Some e) d cat sd ed limit) = Inr (''Error: '' @ e)
   \<and> fst (get_summary (Some e) d sd ed) = Inr (''Error gathering summary: '' @ e)"
  by (simp add: get_resource_summary_def add_expense_def list_expenses_def get_summary_def)

subsection \<open>Validation\<close>

text \<open>
  C3. For an amount that is not positive, \<^verbatim>\<open>add_expense\<close> returns the error text and
  the store it was given, whatever the state of the storage layer. For a positive amount
  and a working store the row is inserted with the fields as they were passed: nothing
  else is checked.
\<close>

theorem add_expense_validates_amount_only:
  "(amt \<le> 0 \<longrightarrow>
      add_expense flt td d amt cat sub nt dt
        = (Inr ''Error: Amount must be a positive number.'', d)
      \<and> length (rows (snd (add_expense flt td d amt cat sub nt dt))) = length (rows d))
   \<and> (0 < amt \<longrightarrow>
      snd (add_expense None td d amt cat sub nt dt) =
        \<lparr>rows = rows d @ [\<lparr>row_id = next_id d, amount = amt, date = py_or dt td,
                            category = cat, subcategory = sub, note_text = nt\<rparr>],
         seq = next_id d\<rparr>)"
  by (simp add: add_expense_def insert_expense_def Let_def)

theorem add_expense_validates_amount_only_witness:
  "((-1::rat) \<le> 0
    \<and> add_expense (Some ''disk I/O error'') ''2024-03-01'' empty_db (-1) ''Food'' None None None
        = (Inr ''Error: Amount must be a positive number.'', empty_db))
   \<and> ((0::rat) < 5
    \<and> snd (add_expense None ''2024-03-01'' empty_db 5 [] (Some []) (Some []) (Some ''soon'')) =
        \<lparr>rows = [\<lparr>row_id = 1, amount = 5, date = ''soon'', category = [],
                   subcategory = Some [], note_text = Some []\<rparr>], seq = 1\<rparr>)"
  using add_expense_validates_amount_only
          [of "-1" "Some ''disk I/O error''" "''2024-03-01''" empty_db "''Food''" None None None]
        add_expense_validates_amount_only
          [of 5 None "''2024-03-01''" empty_db "[]" "Some []" "Some []" "Some ''soon''"]
  by (simp add: empty_db_def next_id_def)

subsection \<open>Frame\<close>

text \<open>
  C8. Listing, summarising and reading either resource return the store they were given.
  \<^verbatim>\<open>add_expense\<close> returns it unchanged or with one row appended, and over a whole
  session the rows present at the start remain, unchanged and in place, as a prefix.
\<close>

theorem only_add_expense_appends:
  "snd (list_expenses flt d cat sd ed limit) = d
   \<and> snd (get_summary flt d sd ed) = d
   \<and> snd (handle env d ReadCategories) = d
   \<and> snd (get_resource_summary flt p d) = d
   \<and> (snd (add_expense flt td d amt acat sub nt dt) = d
      \<or> (\<exists>r. snd (add_expense flt td d amt acat sub nt dt)
               = \<lparr>rows = rows d @ [r], seq = row_id r\<rparr>))
   \<and> (\<exists>added. rows (serve d calls) = rows d @ added)"
  by (simp add: snd_list_expenses snd_get_summary snd_get_resource_summary snd_add_expense
        serve_rows_append)

subsection \<open>Empty strings\<close>

text \<open>
  C10. The claim fails for \<^verbatim>\<open>subcategory\<close> (and \<^verbatim>\<open>note\<close>), which are optional
  string parameters too: the empty string is stored as it is, where an omitted argument is
  stored as \<^verbatim>\<open>NULL\<close>.
\<close>

theorem empty_subcategory_is_stored_counterexample:
  "snd (add_expense None ''2024-03-01'' empty_db 1 ''Food'' (Some []) None None)
     \<noteq> snd (add_expense None ''2024-03-01'' empty_db 1 ''Food'' None None None)"
  by (simp add: snd_add_expense empty_db_def)

text \<open>
  C10, amended. An empty string for \<^verbatim>\<open>category\<close>, \<^verbatim>\<open>start_date\<close> or
  \<^verbatim>\<open>end_date\<close> of \<^verbatim>\<open>list_expenses\<close>, for \<^verbatim>\<open>start_date\<close> or \<^verbatim>\<open>end_date\<close> of
  \<^verbatim>\<open>get_summary\<close>, or for \<^verbatim>\<open>date\<close> of \<^verbatim>\<open>add_expense\<close> gives the result and the
  store that the omitted argument gives; the date stored is then the current date.
\<close>

theorem empty_string_as_omitted:
  "list_expenses flt d (Some []) sd ed limit = list_expenses flt d None sd ed limit
   \<and> list_expenses flt d cat (Some []) ed limit = list_expenses flt d cat None ed limit
   \<and> list_expenses flt d cat sd (Some []) limit = list_expenses flt d cat sd None limit
   \<and> get_summary flt d (Some []) ed = get_summary flt d None ed
   \<and> get_summary flt d sd (Some []) = get_summary flt d sd None
   \<and> add_expense flt td d amt acat sub nt (Some []) = add_expense flt td d amt acat sub nt None
   \<and> rows (snd (add_expense None td d 1 acat sub nt (Some []))) =
       rows d @ [\<lparr>row_id = next_id d, amount = 1, date = td, category = acat,
                   subcategory = sub, note_text = nt\<rparr>]"
  by (simp add: list_expenses_def execute_list_query_empty_string get_summary_def summary_lines_def
        summary_rows_empty_string select_where_def where_conds_empty_string
        add_expense_def insert_expense_def Let_def split: option.split)

subsection \<open>The category heading of the summary\<close>

text \<open>
  C1. The heading of a category is to show the category's subtotal and entry count. The
  loop writes the heading from the first result row of the category, which is one
  (category, subcategory) group: for Food/Grocery 10, Food/Restaurant 30 and Transport 5
  the heading of FOOD shows 30.00 and 1 entry, not 40.00 and 2 entries.
\<close>

theorem get_summary_heading_shows_first_group:
  "summary_rows summary_example_db None None =
     [(''Food'', Some ''Restaurant'', 30, 1), (''Food'', Some ''Grocery'', 10, 1),
      (''Transport'', None, 5, 1)]
   \<and> total_sum (select_where None None None (rows summary_example_db)) = 45
   \<and> summary_loop None (summary_rows summary_example_db None None) =
     [[CHR 0x0A] @ ''[FOOD] - Total: $30.00 (1 entries)'',
      ''  '' @ [CHR 0xE2, CHR 0x94, CHR 0x94, CHR 0xE2, CHR 0x94, CHR 0x80]
        @ '' Restaurant: $30.00'',
      ''  '' @ [CHR 0xE2, CHR 0x94, CHR 0x94, CHR 0xE2, CHR 0x94, CHR 0x80]
        @ '' Grocery: $10.00'',
      [CHR 0x0A] @ ''[TRANSPORT] - Total: $5.00 (1 entries)'']"
proof -
  have r: "summary_rows summary_example_db None None =
     [(''Food'', Some ''Restaurant'', 30, 1), (''Food'', Some ''Grocery'', 10, 1),
      (''Transport'', None, 5, 1)]"
    by (simp add: summary_rows_def rows_summary_example_db select_where_def where_conds_def
          group_by_category_subcategory_def order_by_category_sum_desc_def)
  have t: "total_sum (select_where None None None (rows summary_example_db)) = 45"
    by (simp add: rows_summary_example_db select_where_def where_conds_def total_sum_def)
  have l: "summary_loop None
     [(''Food'', Some ''Restaurant'', 30, 1), (''Food'', Some ''Grocery'', 10, 1),
      (''Transport'', None, 5, 1)] =
     [[CHR 0x0A] @ ''[FOOD] - Total: $30.00 (1 entries)'',
      ''  '' @ [CHR 0xE2, CHR 0x94, CHR 0x94, CHR 0xE2, CHR 0x94, CHR 0x80]
        @ '' Restaurant: $30.00'',
      ''  '' @ [CHR 0xE2, CHR 0x94, CHR 0x94, CHR 0xE2, CHR 0x94, CHR 0x80]
        @ '' Grocery: $10.00'',
      [CHR 0x0A] @ ''[TRANSPORT] - Total: $5.00 (1 entries)'']"
    by code_simp
  show ?thesis using r t l by simp
qed

subsection \<open>Identifiers\<close>

text \<open>
  C7. In any store the id that an insertion receives is above every id in the table and
  above the counter, so it was never assigned before; the rows already there stay as they
  are; and every later successful \<^verbatim>\<open>add_expense\<close> of the session receives a larger id.
  In a session that starts from the empty table the ids are 1, 2, ... in the order of
  insertion, and the id that a successful \<^verbatim>\<open>add_expense\<close> reports is the row count after
  it.
\<close>

theorem assigned_ids_increase:
  "(\<forall>r\<in>set (rows d). row_id r < next_id d) \<and> seq d < next_id d
   \<and> (0 < amt \<longrightarrow>
        fst (add_expense None td d amt cat sub nt dt)
          = Inr (add_success_text (next_id d) cat sub amt (py_or dt td))
        \<and> rows (snd (add_expense None td d amt cat sub nt dt))
          = rows d @ [\<lparr>row_id = next_id d, amount = amt, date = py_or dt td, category = cat,
                        subcategory = sub, note_text = nt\<rparr>]
        \<and> next_id d < next_id (serve (snd (add_expense None td d amt cat sub nt dt)) calls))
   \<and> (d = serve empty_db earlier \<longrightarrow>
        map row_id (rows d) = [1..<Suc (length (rows d))]
        \<and> (0 < amt \<longrightarrow>
             next_id d = length (rows (snd (add_expense None td d amt cat sub nt dt)))))"
proof -
  have fresh: "\<forall>r\<in>set (rows d). row_id r < next_id d"
    by (simp add: next_id_fresh)
  have later: "next_id d < next_id (serve (snd (add_expense None td d amt cat sub nt dt)) calls)"
    if "0 < amt"
  proof -
    have "next_id d < next_id (snd (add_expense None td d amt cat sub nt dt))"
      using that by (simp add: next_id_add_success)
    also have "\<dots> \<le> next_id (serve (snd (add_expense None td d amt cat sub nt dt)) calls)"
      by (rule next_id_serve_mono)
    finally show ?thesis .
  qed
  have dense: "map row_id (rows d) = [1..<Suc (length (rows d))] \<and> next_id d = Suc (length (rows d))"
    if "d = serve empty_db earlier"
  proof -
    have "ids_dense d" using that by (simp add: ids_dense_serve ids_dense_empty)
    then show ?thesis using next_id_dense [of d] unfolding ids_dense_def by blast
  qed
  show ?thesis
    using fresh later dense
    by (simp add: next_id_above_seq fst_add_expense_ok snd_add_expense)
qed

theorem assigned_ids_increase_witness:
  "(0::rat) < 5
   \<and> dates_example_db = serve empty_db
        [(example_env, AddExpense 1 ''Food'' None None (Some ''2024-01-01'')),
         (example_env, AddExpense 2 ''Food'' None None (Some ''2024-01-15'')),
         (example_env, AddExpense 3 ''Food'' None None (Some ''2024-02-01''))]
   \<and> map row_id (rows dates_example_db) = [1, 2, 3]
   \<and> fst (add_expense None ''2024-03-01'' dates_example_db 5 ''Food'' None None None)
       = Inr ''Successfully added expense ID 4: Food (N/A) - $5.00 on 2024-03-01''
   \<and> length (rows (snd (add_expense None ''2024-03-01'' dates_example_db 5 ''Food'' None None
        None))) = 4"
  using assigned_ids_increase [of dates_example_db 5 "''2024-03-01''" "''Food''" None None None "[]"
          "[(example_env, AddExpense 1 ''Food'' None None (Some ''2024-01-01'')),
            (example_env, AddExpense 2 ''Food'' None None (Some ''2024-01-15'')),
            (example_env, AddExpense 3 ''Food'' None None (Some ''2024-02-01''))]"]
        dates_example_db_def add_text4 next_id_dates_example_db
  by (simp add: rows_dates_example_db)

subsection \<open>Round trip\<close>

text \<open>
  C4. The listing holds at most 20 rows by default and begins with the latest dates. A
  record added with a date earlier than that of 20 records already stored is not in it:
  here the table holds 20 records of 2024-01-02 and the new one is of 2024-01-01.
\<close>

theorem round_trip_counterexample:
  "\<lparr>row_id = 21, amount = 1, date = ''2024-01-01'', category = ''Food'', subcategory = None,
     note_text = None\<rparr>
     \<in> set (rows (snd (add_expense None ''2024-03-01'' full_page_db 1 ''Food'' None None
                        (Some ''2024-01-01''))))
   \<and> \<lparr>row_id = 21, amount = 1, date = ''2024-01-01'', category = ''Food'', subcategory = None,
       note_text = None\<rparr>
     \<notin> set (list_rows (snd (add_expense None ''2024-03-01'' full_page_db 1 ''Food'' None None
                               (Some ''2024-01-01''))) None None None limit_default)"
  by (simp add: snd_add_expense next_id_full_page_db rows_full_page_db list_rows_def
        select_where_def where_conds_def order_by_date_id_desc_def sql_limit_def
        limit_default_def upt_rec)

text \<open>
  C4, amended. For a positive amount and a working store, if fewer than 20 records of
  the table have a date later than that of the new record, then \<^verbatim>\<open>list_expenses\<close>
  without filters, called after \<^verbatim>\<open>add_expense\<close>, returns the table text, one line of
  which is the new record; the amount in that line is the amount passed, in the format
  \<^verbatim>\<open>.2f\<close>.
\<close>

theorem add_then_list_round_trip:
  assumes "0 < amt"
      and "length (filter (\<lambda>r. py_or dt td < date r) (rows d)) < 20"
  shows "\<lparr>row_id = next_id d, amount = amt, date = py_or dt td, category = cat,
           subcategory = sub, note_text = nt\<rparr>
           \<in> set (list_rows (snd (add_expense None td d amt cat sub nt dt)) None None None
                    limit_default)
         \<and> fst (list_expenses None (snd (add_expense None td d amt cat sub nt dt)) None None None
                  limit_default)
           = Inr (join_lines (list_lines
                   (list_rows (snd (add_expense None td d amt cat sub nt dt)) None None None
                      limit_default)))
         \<and> format_row \<lparr>row_id = next_id d, amount = amt, date = py_or dt td, category = cat,
                         subcategory = sub, note_text = nt\<rparr>
           \<in> set (list_lines
                   (list_rows (snd (add_expense None td d amt cat sub nt dt)) None None None
                      limit_default))
         \<and> format_row \<lparr>row_id = next_id d, amount = amt, date = py_or dt td, category = cat,
                         subcategory = sub, note_text = nt\<rparr>
           = ljust 4 (str_nat (next_id d)) @ '' | '' @ ljust 10 (py_or dt td) @ '' | ''
               @ ljust 12 cat @ '' | '' @ ljust 12 (py_or sub ''N/A'') @ '' | $''
               @ ljust 7 (fmt_2f amt) @ '' | '' @ py_or nt []"
proof -
  define x where "x = \<lparr>row_id = next_id d, amount = amt, date = py_or dt td, category = cat,
                        subcategory = sub, note_text = nt\<rparr>"
  define d' where "d' = snd (add_expense None td d amt cat sub nt dt)"
  have d': "d' = \<lparr>rows = rows d @ [x], seq = next_id d\<rparr>"
    using assms(1) by (simp add: d'_def x_def snd_add_expense)
  have mem: "x \<in> set (list_rows d' None None None limit_default)"
    unfolding d' x_def by (rule added_row_listed [OF assms(2)])
  then have ne: "list_rows d' None None None limit_default \<noteq> []" by auto
  have out: "fst (list_expenses None d' None None None limit_default)
           = Inr (join_lines (list_lines (list_rows d' None None None limit_default)))"
    using ne
    by (simp add: list_expenses_def execute_list_query_def sqlite_int_def limit_default_def)
  have line: "format_row x \<in> set (list_lines (list_rows d' None None None limit_default))"
    using mem by (simp add: list_lines_def)
  have fmt: "format_row x
           = ljust 4 (str_nat (next_id d)) @ '' | '' @ ljust 10 (py_or dt td) @ '' | ''
               @ ljust 12 cat @ '' | '' @ ljust 12 (py_or sub ''N/A'') @ '' | $''
               @ ljust 7 (fmt_2f amt) @ '' | '' @ py_or nt []"
    by (simp add: format_row_def x_def)
  show ?thesis
    using mem out line fmt unfolding d'_def x_def by blast
qed

theorem add_then_list_round_trip_witness:
  "(0::rat) < 25 / 2
   \<and> length (filter (\<lambda>r. ''2024-03-01'' < date r) (rows dates_example_db)) < 20
   \<and> ''4    | 2024-03-01 | Food         | N/A          | $12.50   | lunch''
       \<in> set (list_lines (list_rows
                (snd (add_expense None ''2024-03-01'' dates_example_db (25 / 2) ''Food'' None
                        (Some ''lunch'') None)) None None None limit_default))"
  using add_then_list_round_trip
          [of "25 / 2" None "''2024-03-01''" dates_example_db "''Food''" None "Some ''lunch''"]
        format_row_example
  by (simp add: rows_dates_example_db next_id_dates_example_db)

subsection \<open>Order and length of the listing\<close>

text \<open>
  C5. The claim fails for limits that the query does not take as a bound on the rows.
  A limit outside the signed 64-bit range cannot be bound to the query:
  \<^verbatim>\<open>list_expenses\<close> returns an error text and no rows, here for limit \<open>2 ^ 63\<close> on
  a table of three records. A negative limit is no bound at all: with limit -1 the
  three records are all listed.
\<close>

theorem out_of_range_limit_counterexample:
  "rows summary_example_db \<noteq> []
   \<and> fst (list_expenses None summary_example_db None None None (2 ^ 63))
       = Inr ''Error: Python int too large to convert to SQLite INTEGER''
   \<and> fst (list_expenses None summary_example_db None None None (-1))
       = Inr (join_lines (list_lines
           [\<lparr>row_id = 3, amount = 5, date = ''2024-03-01'', category = ''Transport'',
              subcategory = None, note_text = None\<rparr>,
            \<lparr>row_id = 2, amount = 30, date = ''2024-03-01'', category = ''Food'',
              subcategory = Some ''Restaurant'', note_text = None\<rparr>,
            \<lparr>row_id = 1, amount = 10, date = ''2024-03-01'', category = ''Food'',
              subcategory = Some ''Grocery'', note_text = None\<rparr>]))"
  by (simp add: fst_list_expenses_ok fst_list_expenses_overflow sqlite_int_def
        rows_summary_example_db eval_list)

text \<open>
  C5, amended. For every table, all filter arguments and every limit in the signed
  64-bit range, \<^verbatim>\<open>list_expenses\<close> returns the text of the rows \<open>shown\<close> (or the
  "no expenses" text when there are none), where \<open>shown\<close> followed by the rows cut off
  is the matching records, each as often as the table holds it, ordered by date
  descending, then id descending; ids being unique, of two records with the same date
  the one inserted later comes first. For a limit that is not negative \<open>shown\<close> is
  the first \<open>limit\<close> of these rows (all of them when there are fewer); for a negative
  limit nothing is cut off. The default of the limit is 20.
\<close>

theorem list_expenses_order_and_limit:
  "(- (2 ^ 63) \<le> limit \<and> limit < 2 ^ 63 \<longrightarrow>
     (\<exists>shown rest.
        fst (list_expenses None d cat sd ed limit)
          = (if shown = [] then Inr ''No expenses found matching the criteria.''
             else Inr (join_lines (list_lines shown)))
        \<and> (\<forall>r. count_list (shown @ rest) r = count_list (matching_records cat sd ed (rows d)) r)
        \<and> sorted_wrt (\<lambda>a b. date b < date a \<or> (date b = date a \<and> row_id b \<le> row_id a))
            (shown @ rest)
        \<and> (distinct (map row_id (rows d)) \<longrightarrow>
             sorted_wrt (\<lambda>a b. date b < date a \<or> (date b = date a \<and> row_id b < row_id a))
               (shown @ rest))
        \<and> (if limit < 0 then rest = []
            else length shown = min (nat limit) (length (shown @ rest)))))
   \<and> limit_default = 20"
proof -
  have main: "\<exists>shown rest.
        fst (list_expenses None d cat sd ed limit)
          = (if shown = [] then Inr ''No expenses found matching the criteria.''
             else Inr (join_lines (list_lines shown)))
        \<and> (\<forall>r. count_list (shown @ rest) r = count_list (matching_records cat sd ed (rows d)) r)
        \<and> sorted_wrt latest_first (shown @ rest)
        \<and> (distinct (map row_id (rows d)) \<longrightarrow>
             sorted_wrt (\<lambda>a b. date b < date a \<or> (date b = date a \<and> row_id b < row_id a))
               (shown @ rest))
        \<and> (if limit < 0 then rest = []
            else length shown = min (nat limit) (length (shown @ rest)))"
    if range: "- (2 ^ 63) \<le> limit \<and> limit < 2 ^ 63"
  proof -
    define all where "all = order_by_date_id_desc (select_where cat sd ed (rows d))"
    define shown where "shown = list_rows d cat sd ed limit"
    define rest where "rest = (if limit < 0 then [] else drop (nat limit) all)"
    have app: "shown @ rest = all"
      by (simp add: shown_def list_rows_def sql_limit_def rest_def all_def)
    have out: "fst (list_expenses None d cat sd ed limit)
          = (if shown = [] then Inr ''No expenses found matching the criteria.''
             else Inr (join_lines (list_lines shown)))"
      using range by (simp add: fst_list_expenses_ok sqlite_int_def shown_def)
    have c: "\<forall>r. count_list (shown @ rest) r = count_list (matching_records cat sd ed (rows d)) r"
      by (simp only: app) (simp add: all_def count_list_order select_where_matching)
    have s: "sorted_wrt latest_first (shown @ rest)"
      by (simp only: app) (simp add: all_def order_latest_first)
    have st: "sorted_wrt (\<lambda>a b. date b < date a \<or> (date b = date a \<and> row_id b < row_id a))
               (shown @ rest)" if dist: "distinct (map row_id (rows d))"
    proof -
      have "sorted_wrt (\<lambda>a b. (date b < date a \<or> (date b = date a \<and> row_id b \<le> row_id a))
                          \<and> row_id a \<noteq> row_id b) all"
        unfolding all_def
        using order_sorted distinct_ids_all [OF dist] by (rule sorted_wrt_distinct_strict)
      then have "sorted_wrt (\<lambda>a b. date b < date a \<or> (date b = date a \<and> row_id b < row_id a)) all"
        by (rule sorted_wrt_mono_rel [rotated]) auto
      then show ?thesis by (simp only: app)
    qed
    have l: "if limit < 0 then rest = [] else length shown = min (nat limit) (length (shown @ rest))"
      by (simp only: app) (simp add: rest_def shown_def list_rows_def sql_limit_def all_def min_def)
    show ?thesis using out c s st l by blast
  qed
  show ?thesis
    using main by (simp add: limit_default_def latest_first_def [abs_def])
qed

theorem list_expenses_order_and_limit_witness:
  "- (2 ^ 63) \<le> (2::int) \<and> (2::int) < 2 ^ 63
   \<and> distinct (map row_id (rows summary_example_db))
   \<and> fst (list_expenses None summary_example_db None None None 2)
       = Inr (join_lines (list_lines
           [\<lparr>row_id = 3, amount = 5, date = ''2024-03-01'', category = ''Transport'',
              subcategory = None, note_text = None\<rparr>,
            \<lparr>row_id = 2, amount = 30, date = ''2024-03-01'', category = ''Food'',
              subcategory = Some ''Restaurant'', note_text = None\<rparr>]))
   \<and> limit_default = 20"
proof -
  have v: "fst (list_expenses None summary_example_db None None None 2)
       = Inr (join_lines (list_lines
           [\<lparr>row_id = 3, amount = 5, date = ''2024-03-01'', category = ''Transport'',
              subcategory = None, note_text = None\<rparr>,
            \<lparr>row_id = 2, amount = 30, date = ''2024-03-01'', category = ''Food'',
              subcategory = Some ''Restaurant'', note_text = None\<rparr>]))"
    by (simp add: fst_list_expenses_ok sqlite_int_def rows_summary_example_db eval_list)
  have h: "- (2 ^ 63) \<le> (2::int) \<and> (2::int) < 2 ^ 63" by simp
  have dst: "distinct (map row_id (rows summary_example_db))"
    by (simp add: rows_summary_example_db)
  show ?thesis
    using list_expenses_order_and_limit [of 2 summary_example_db None None None] v h dst
    by blast
qed

subsection \<open>The limit is not validated\<close>

text \<open>
  C9. Not every negative limit lists all matching records: a limit below the signed
  64-bit range cannot be bound to the query, and \<^verbatim>\<open>list_expenses\<close> returns an error
  text although the table holds matching records.
\<close>

theorem below_range_limit_counterexample:
  "matching_records None None None (rows dates_example_db) \<noteq> []
   \<and> (- (2 ^ 63) - 1 :: int) < 0
   \<and> fst (list_expenses None dates_example_db None None None (- (2 ^ 63) - 1))
       = Inr ''Error: Python int too large to convert to SQLite INTEGER''"
  by (simp add: fst_list_expenses_overflow sqlite_int_def rows_dates_example_db
        matching_records_def satisfies_filters_def given_def)

text \<open>
  C9, amended. The limit is passed to the query as it is. With limit 0
  \<^verbatim>\<open>list_expenses\<close> returns the "no expenses" text, whatever the table holds. With
  a negative limit in the signed 64-bit range it returns the text of all matching
  records, each as often as the table holds it, in the order of the listing. With a
  limit outside that range it returns the error text of the failed binding.
\<close>

theorem list_expenses_limit_unvalidated:
  "fst (list_expenses None d cat sd ed 0) = Inr ''No expenses found matching the criteria.''
   \<and> (- (2 ^ 63) \<le> limit \<and> limit < 0 \<longrightarrow>
        (\<exists>shown.
           fst (list_expenses None d cat sd ed limit)
             = (if shown = [] then Inr ''No expenses found matching the criteria.''
                else Inr (join_lines (list_lines shown)))
           \<and> (\<forall>r. count_list shown r = count_list (matching_records cat sd ed (rows d)) r)
           \<and> sorted_wrt (\<lambda>a b. date b < date a \<or> (date b = date a \<and> row_id b \<le> row_id a))
               shown))
   \<and> (limit < - (2 ^ 63) \<or> 2 ^ 63 \<le> limit \<longrightarrow>
        fst (list_expenses None d cat sd ed limit)
          = Inr ''Error: Python int too large to convert to SQLite INTEGER'')"
proof -
  have zero: "fst (list_expenses None d cat sd ed 0)
                = Inr ''No expenses found matching the criteria.''"
    by (simp add: fst_list_expenses_ok sqlite_int_def list_rows_def sql_limit_def)
  have neg: "\<exists>shown.
           fst (list_expenses None d cat sd ed limit)
             = (if shown = [] then Inr ''No expenses found matching the criteria.''
                else Inr (join_lines (list_lines shown)))
           \<and> (\<forall>r. count_list shown r = count_list (matching_records cat sd ed (rows d)) r)
           \<and> sorted_wrt latest_first shown"
    if range: "- (2 ^ 63) \<le> limit \<and> limit < 0"
  proof -
    define shown where "shown = list_rows d cat sd ed limit"
    have all: "shown = order_by_date_id_desc (select_where cat sd ed (rows d))"
      using range by (simp add: shown_def list_rows_def sql_limit_def)
    have out: "fst (list_expenses None d cat sd ed limit)
             = (if shown = [] then Inr ''No expenses found matching the criteria.''
                else Inr (join_lines (list_lines shown)))"
      using range by (simp add: fst_list_expenses_ok sqlite_int_def shown_def)
    have c: "\<forall>r. count_list shown r = count_list (matching_records cat sd ed (rows d)) r"
      by (simp add: all count_list_order select_where_matching)
    have s: "sorted_wrt latest_first shown"
      by (simp add: all order_latest_first)
    show ?thesis using out c s by blast
  qed
  have over: "fst (list_expenses None d cat sd ed limit)
          = Inr ''Error: Python int too large to convert to SQLite INTEGER''"
    if "limit < - (2 ^ 63) \<or> 2 ^ 63 \<le> limit"
    using that by (intro fst_list_expenses_overflow) (auto simp: sqlite_int_def)
  show ?thesis
    using zero neg over unfolding latest_first_def [abs_def] by blast
qed

theorem list_expenses_limit_unvalidated_witness:
  "(- (2 ^ 63) \<le> (-1::int) \<and> (-1::int) < 0
    \<and> fst (list_expenses None dates_example_db None None None (-1))
        = Inr (join_lines (list_lines
            [\<lparr>row_id = 3, amount = 3, date = ''2024-02-01'', category = ''Food'',
               subcategory = None, note_text = None\<rparr>,
             \<lparr>row_id = 2, amount = 2, date = ''2024-01-15'', category = ''Food'',
               subcategory = None, note_text = None\<rparr>,
             \<lparr>row_id = 1, amount = 1, date = ''2024-01-01'', category = ''Food'',
               subcategory = None, note_text = None\<rparr>])))
   \<and> fst (list_expenses None dates_example_db None None None 0)
       = Inr ''No expenses found matching the criteria.''
   \<and> ((2::int) ^ 63 \<le> 2 ^ 64
    \<and> fst (list_expenses None dates_example_db None None None (2 ^ 64))
        = Inr ''Error: Python int too large to convert to SQLite INTEGER'')"
proof -
  have v: "fst (list_expenses None dates_example_db None None None (-1))
        = Inr (join_lines (list_lines
            [\<lparr>row_id = 3, amount = 3, date = ''2024-02-01'', category = ''Food'',
               subcategory = None, note_text = None\<rparr>,
             \<lparr>row_id = 2, amount = 2, date = ''2024-01-15'', category = ''Food'',
               subcategory = None, note_text = None\<rparr>,
             \<lparr>row_id = 1, amount = 1, date = ''2024-01-01'', category = ''Food'',
               subcategory = None, note_text = None\<rparr>]))"
    by (simp add: fst_list_expenses_ok sqlite_int_def rows_dates_example_db eval_list)
  have h1: "- (2 ^ 63) \<le> (-1::int) \<and> (-1::int) < 0" by simp
  have h2: "(2::int) ^ 64 < - (2 ^ 63) \<or> (2::int) ^ 63 \<le> 2 ^ 64" by simp
  have h3: "(2::int) ^ 63 \<le> 2 ^ 64" by simp
  show ?thesis
    using list_expenses_limit_unvalidated [of dates_example_db None None None "-1"]
          list_expenses_limit_unvalidated [of dates_example_db None None None "2 ^ 64"]
          v h1 h2 h3
    by blast
qed

subsection \<open>Filters\<close>

text \<open>
  C6. Satisfying the filters does not decide whether \<^verbatim>\<open>list_expenses\<close> includes a
  record. With limit 1 and no filter the record of 2024-01-01 satisfies every filter
  and is not listed: the listing is cut to its first row. With the end date \<^verbatim>\<open>""\<close> the
  record of 2024-02-01 does not have a date at or below the end date and is listed: an
  empty string is not taken as a filter.
\<close>

theorem filters_counterexample:
  "rows dates_example_db =
     [\<lparr>row_id = 1, amount = 1, date = ''2024-01-01'', category = ''Food'',
        subcategory = None, note_text = None\<rparr>,
      \<lparr>row_id = 2, amount = 2, date = ''2024-01-15'', category = ''Food'',
        subcategory = None, note_text = None\<rparr>,
      \<lparr>row_id = 3, amount = 3, date = ''2024-02-01'', category = ''Food'',
        subcategory = None, note_text = None\<rparr>]
   \<and> satisfies_filters None None None
        \<lparr>row_id = 1, amount = 1, date = ''2024-01-01'', category = ''Food'',
          subcategory = None, note_text = None\<rparr>
   \<and> fst (list_expenses None dates_example_db None None None 1)
       = Inr (join_lines (list_lines
           [\<lparr>row_id = 3, amount = 3, date = ''2024-02-01'', category = ''Food'',
              subcategory = None, note_text = None\<rparr>]))
   \<and> \<not> satisfies_filters None None (Some [])
          \<lparr>row_id = 3, amount = 3, date = ''2024-02-01'', category = ''Food'',
            subcategory = None, note_text = None\<rparr>
   \<and> fst (list_expenses None dates_example_db None None (Some []) limit_default)
       = Inr (join_lines (list_lines
           [\<lparr>row_id = 3, amount = 3, date = ''2024-02-01'', category = ''Food'',
              subcategory = None, note_text = None\<rparr>,
            \<lparr>row_id = 2, amount = 2, date = ''2024-01-15'', category = ''Food'',
              subcategory = None, note_text = None\<rparr>,
            \<lparr>row_id = 1, amount = 1, date = ''2024-01-01'', category = ''Food'',
              subcategory = None, note_text = None\<rparr>]))"
  by (simp add: fst_list_expenses_ok sqlite_int_def rows_dates_example_db eval_list
        satisfies_filters_def)

text \<open>
  C6, amended. A record matches when it is in the table and satisfies every filter that
  is given and not the empty string: category equal (for \<^verbatim>\<open>list_expenses\<close>), start date
  \<open>\<le>\<close> date, date \<open>\<le>\<close> end date, in the order of strings. For a limit in the signed
  64-bit range \<^verbatim>\<open>list_expenses\<close> returns the text of the rows \<open>shown\<close>, which with the
  rows cut off are exactly the matching records, each as often as the table holds it;
  nothing is cut off for a negative limit, and all but the first \<open>limit\<close> rows
  otherwise. \<^verbatim>\<open>get_summary\<close> returns the "no data" text when no record matches, and
  otherwise the report whose total is the sum over the matching records and whose group
  rows are, one for each (category, subcategory) pair among the matching records, the
  sum and the number of the matching records of that pair.
\<close>

theorem filters_are_conjunctive:
  "(r \<in> set (matching_records cat sd ed (rows d)) \<longleftrightarrow>
      r \<in> set (rows d)
      \<and> (\<forall>c. cat = Some c \<and> c \<noteq> [] \<longrightarrow> category r = c)
      \<and> (\<forall>s. sd = Some s \<and> s \<noteq> [] \<longrightarrow> s \<le> date r)
      \<and> (\<forall>e. ed = Some e \<and> e \<noteq> [] \<longrightarrow> date r \<le> e))
   \<and> (- (2 ^ 63) \<le> limit \<and> limit < 2 ^ 63 \<longrightarrow>
       (\<exists>shown rest.
          fst (list_expenses None d cat sd ed limit)
            = (if shown = [] then Inr ''No expenses found matching the criteria.''
               else Inr (join_lines (list_lines shown)))
          \<and> (\<forall>x. count_list (shown @ rest) x
                   = count_list (matching_records cat sd ed (rows d)) x)
          \<and> (if limit < 0 then rest = []
              else length shown = min (nat limit) (length (shown @ rest)))))
   \<and> fst (get_summary None d sd ed)
       = (if matching_records None sd ed (rows d) = []
          then Inr ''No data recorded for the selected period.''
          else Inr (join_lines
                 ([''Expense Summary Report ('' @ py_or sd ''Beginning'' @ '' to ''
                     @ py_or ed ''Now'' @ '')'',
                   ''TOTAL SPEND: $''
                     @ fmt_2f (sum_list (map amount (matching_records None sd ed (rows d)))),
                   replicate 40 (CHR ''-'')]
                  @ summary_loop None (summary_rows d sd ed))))
   \<and> set (summary_rows d sd ed)
       = group_of (matching_records None sd ed (rows d))
           ` set (map (\<lambda>x. (category x, subcategory x)) (matching_records None sd ed (rows d)))
   \<and> distinct (map (\<lambda>g. (fst g, fst (snd g))) (summary_rows d sd ed))"
proof -
  have lst: "\<exists>shown rest.
          fst (list_expenses None d cat sd ed limit)
            = (if shown = [] then Inr ''No expenses found matching the criteria.''
               else Inr (join_lines (list_lines shown)))
          \<and> (\<forall>x. count_list (shown @ rest) x
                   = count_list (matching_records cat sd ed (rows d)) x)
          \<and> (if limit < 0 then rest = []
              else length shown = min (nat limit) (length (shown @ rest)))"
    if range: "- (2 ^ 63) \<le> limit \<and> limit < 2 ^ 63"
  proof -
    define all where "all = order_by_date_id_desc (select_where cat sd ed (rows d))"
    define shown where "shown = list_rows d cat sd ed limit"
    define rest where "rest = (if limit < 0 then [] else drop (nat limit) all)"
    have app: "shown @ rest = all"
      by (simp add: shown_def list_rows_def sql_limit_def rest_def all_def)
    have out: "fst (list_expenses None d cat sd ed limit)
          = (if shown = [] then Inr ''No expenses found matching the criteria.''
             else Inr (join_lines (list_lines shown)))"
      using range by (simp add: fst_list_expenses_ok sqlite_int_def shown_def)
    have c: "\<forall>x. count_list (shown @ rest) x = count_list (matching_records cat sd ed (rows d)) x"
      by (simp only: app) (simp add: all_def count_list_order select_where_matching)
    have l: "if limit < 0 then rest = [] else length shown = min (nat limit) (length (shown @ rest))"
      by (simp only: app) (simp add: rest_def shown_def list_rows_def sql_limit_def all_def min_def)
    show ?thesis using out c l by blast
  qed
  show ?thesis
    using lst in_matching_records [of r cat sd ed "rows d"] fst_get_summary_ok [of d sd ed]
          set_summary_rows [of d sd ed] distinct_summary_keys [of d sd ed]
    by blast
qed

theorem filters_are_conjunctive_witness:
  "- (2 ^ 63) \<le> limit_default \<and> limit_default < 2 ^ 63
   \<and> matching_records None (Some ''2024-01-10'') (Some ''2024-01-31'') (rows dates_example_db)
       = [\<lparr>row_id = 2, amount = 2, date = ''2024-01-15'', category = ''Food'',
           subcategory = None, note_text = None\<rparr>]
   \<and> fst (list_expenses None dates_example_db None (Some ''2024-01-10'') (Some ''2024-01-31'')
            limit_default)
       = Inr (join_lines (list_lines
           [\<lparr>row_id = 2, amount = 2, date = ''2024-01-15'', category = ''Food'',
              subcategory = None, note_text = None\<rparr>]))
   \<and> summary_rows dates_example_db (Some ''2024-01-10'') (Some ''2024-01-31'')
       = [(''Food'', None, 2, 1)]"
proof -
  have h: "- (2 ^ 63) \<le> limit_default \<and> limit_default < 2 ^ 63"
    by (simp add: limit_default_def)
  have m: "matching_records None (Some ''2024-01-10'') (Some ''2024-01-31'')
             (rows dates_example_db)
       = [\<lparr>row_id = 2, amount = 2, date = ''2024-01-15'', category = ''Food'',
           subcategory = None, note_text = None\<rparr>]"
    by (simp add: rows_dates_example_db matching_records_def satisfies_filters_def given_def)
  have v: "fst (list_expenses None dates_example_db None (Some ''2024-01-10'')
                  (Some ''2024-01-31'') limit_default)
       = Inr (join_lines (list_lines
           [\<lparr>row_id = 2, amount = 2, date = ''2024-01-15'', category = ''Food'',
              subcategory = None, note_text = None\<rparr>]))"
    by (simp add: fst_list_expenses_ok sqlite_int_def rows_dates_example_db eval_list)
  have s: "summary_rows dates_example_db (Some ''2024-01-10'') (Some ''2024-01-31'')
       = [(''Food'', None, 2, 1)]"
    by (simp add: summary_rows_def rows_dates_example_db select_where_def where_conds_def
          group_by_category_subcategory_def order_by_category_sum_desc_def)
  show ?thesis
    using filters_are_conjunctive
            [of "\<lparr>row_id = 2, amount = 2, date = ''2024-01-15'', category = ''Food'',
                   subcategory = None, note_text = None\<rparr>"
                None "Some ''2024-01-10''" "Some ''2024-01-31''" dates_example_db limit_default]
          h m v s
    by blast
qed

end
